theory Spec2Isabelle
  imports Main
begin

section \<open>Values and property bags\<close>

text \<open>
  The component \<^verbatim>\<open>MuiAutocomplete\<close> of \<^verbatim>\<open>src/mui-form/components/MuiAutocomplete.tsx\<close>
  binds a dropdown widget to a form controller. It is a function from its props and the
  handles returned by the controller hook to an element description. The embedding keeps
  the typed parts of the source as records and the open-ended parts (the props objects of
  the two widgets, the controller settings) as maps from property names to values.
\<close>

text \<open>\<^verbatim>\<open>type AutocompleteOption = { label: string }\<close>\<close>

record AutocompleteOption =
  label :: string

text \<open>
  The JavaScript values that flow through the component: \<^verbatim>\<open>undefined\<close>, \<^verbatim>\<open>null\<close>,
  booleans, strings, an option object, an array of options, and references to objects or
  functions owned by the caller or by one of the two libraries (the form context, the
  notifiers of the field, widget callbacks of the caller), which the component never
  inspects: \<open>Extern\<close> identifies such a reference.
\<close>

datatype jsvalue =
    Undefined
  | Null
  | Boolean bool
  | Str string
  | OptionObj AutocompleteOption
  | OptionArr "AutocompleteOption list"
  | Extern nat

text \<open>A props object: property name to value; an absent key is \<open>None\<close>.\<close>

type_synonym 'v bag = "string \<rightharpoonup> 'v"

text \<open>JavaScript's \<^verbatim>\<open>ToBoolean\<close> on these values (objects, arrays and functions are truthy).\<close>

fun truthy :: "jsvalue \<Rightarrow> bool" where
  "truthy Undefined = False"
| "truthy Null = False"
| "truthy (Boolean b) = b"
| "truthy (Str s) = (s \<noteq> [])"
| "truthy (OptionObj o') = True"
| "truthy (OptionArr os) = True"
| "truthy (Extern r) = True"

text \<open>\<^verbatim>\<open>a && b\<close>: the left operand when it is falsy, the right one otherwise.\<close>

definition js_and :: "jsvalue \<Rightarrow> jsvalue \<Rightarrow> jsvalue" where
  "js_and a b = (if truthy a then b else a)"

text \<open>\<^verbatim>\<open>a ?? b\<close>: the right operand when the left one is \<^verbatim>\<open>null\<close> or \<^verbatim>\<open>undefined\<close>.\<close>

definition nullish :: "jsvalue \<Rightarrow> jsvalue \<Rightarrow> jsvalue" where
  "nullish a b = (case a of Undefined \<Rightarrow> b | Null \<Rightarrow> b | _ \<Rightarrow> a)"

text \<open>Reading a property of an optional props object: \<^verbatim>\<open>obj?.key\<close>.\<close>

definition opt_get :: "jsvalue bag option \<Rightarrow> string \<Rightarrow> jsvalue" where
  "opt_get obj key =
     (case obj of
        None \<Rightarrow> Undefined
      | Some m \<Rightarrow> (case m key of None \<Rightarrow> Undefined | Some v \<Rightarrow> v))"

text \<open>Spreading an optional props object: \<^verbatim>\<open>{...obj}\<close> copies nothing from \<^verbatim>\<open>undefined\<close>.\<close>

definition spread :: "'v bag option \<Rightarrow> 'v bag" where
  "spread obj = (case obj of None \<Rightarrow> Map.empty | Some m \<Rightarrow> m)"

section \<open>The props of the component\<close>

text \<open>
  \<^verbatim>\<open>config?: { displayErrorMessage?: boolean; manageWithLabel?: boolean }\<close> and
  \<^verbatim>\<open>muiProps?: { autocompleteProps?: ...; textFieldProps?: ... }\<close>; an optional member
  is an \<open>option\<close>.
\<close>

record Config =
  displayErrorMessage :: "bool option"
  manageWithLabel :: "bool option"

record MuiProps =
  autocompleteProps :: "jsvalue bag option"
  textFieldProps :: "jsvalue bag option"

text \<open>
  The props object is \<^verbatim>\<open>UseControllerProps & { config?, muiProps? }\<close>: a bag whose keys
  \<^verbatim>\<open>config\<close> and \<^verbatim>\<open>muiProps\<close> hold the two records and whose other keys are the controller
  settings.
\<close>

datatype propsval =
    Setting jsvalue
  | ConfigObj Config
  | MuiPropsObj MuiProps

type_synonym MuiAutocompleteProps = "propsval bag"

text \<open>\<^verbatim>\<open>config?.displayErrorMessage\<close> and \<^verbatim>\<open>config?.manageWithLabel\<close>.\<close>

definition opt_flag :: "Config option \<Rightarrow> (Config \<Rightarrow> bool option) \<Rightarrow> jsvalue" where
  "opt_flag config flag =
     (case config of
        None \<Rightarrow> Undefined
      | Some c \<Rightarrow> (case flag c of None \<Rightarrow> Undefined | Some b \<Rightarrow> Boolean b))"

section \<open>The handles of the form controller\<close>

text \<open>
  Modelled from the spec: the types of the two handles returned by \<^verbatim>\<open>useController\<close> are
  declared in the form library, not in this repository. The Field Control Handle provides
  the current value, the change notifier, the blur notifier, the name and an
  input-reference sink; the Validation State Handle tells whether the field is invalid
  and, if so, a message (optional, as \<^verbatim>\<open>fieldState.error?.message\<close> reads it).
\<close>

record FieldError =
  message :: "string option"

record ControllerField =
  onChange :: jsvalue
  onBlur :: jsvalue
  fieldValue :: jsvalue
  name :: string
  ref :: jsvalue

record ControllerFieldState =
  error :: "FieldError option"

record UseControllerReturn =
  field :: ControllerField
  fieldState :: ControllerFieldState

text \<open>
  The hook is a parameter of the model: it takes the controller settings and the state of
  the form controller, and returns the handles and the controller's new state.
\<close>

type_synonym 's useController = "MuiAutocompleteProps \<Rightarrow> 's \<Rightarrow> UseControllerReturn \<times> 's"

section \<open>Elements\<close>

text \<open>A call \<^verbatim>\<open>f(x)\<close> of an external function, as a value.\<close>

datatype effect = Invoke jsvalue jsvalue

datatype component = Autocomplete | TextField

datatype 'v element = Element (component: component) (props: "'v bag")

text \<open>
  A prop of the rendered dropdown is a plain value or one of the three functions the
  component creates: the label reader, the selection-change handler (event and value to
  the call it makes) and the input renderer (the dropdown's input parameters to the text
  input element).
\<close>

datatype propval =
    Data jsvalue
  | LabelFn "AutocompleteOption \<Rightarrow> string"
  | ChangeFn "jsvalue \<Rightarrow> jsvalue \<Rightarrow> effect"
  | RenderFn "jsvalue bag \<Rightarrow> jsvalue element"

section \<open>The component\<close>

text \<open>\<^verbatim>\<open>(option) => option.label\<close>\<close>

definition getOptionLabel :: "AutocompleteOption \<Rightarrow> string" where
  "getOptionLabel option = label option"

text \<open>
  \<^verbatim>\<open>value?.label\<close>. The dropdown passes the selected option, or \<^verbatim>\<open>null\<close> when the
  selection is cleared (its type for the argument is \<^verbatim>\<open>AutocompleteOption | null\<close>): the
  label of an option, \<^verbatim>\<open>undefined\<close> for \<^verbatim>\<open>null\<close>. For the remaining constructors, which
  that type excludes, the model reads \<^verbatim>\<open>undefined\<close>, the result of reading a property
  that is not there.
\<close>

fun value_label :: "jsvalue \<Rightarrow> jsvalue" where
  "value_label (OptionObj o') = Str (label o')"
| "value_label v = Undefined"

text \<open>
  \<^verbatim>\<open>(_, value) => field.onChange(config?.manageWithLabel ? value?.label : value)\<close>
\<close>

definition handleChange :: "Config option \<Rightarrow> ControllerField \<Rightarrow> jsvalue \<Rightarrow> jsvalue \<Rightarrow> effect" where
  "handleChange config fld ev val =
     Invoke (onChange fld)
       (if truthy (opt_flag config manageWithLabel) then value_label val else val)"

text \<open>
  \<^verbatim>\<open>(params) => <TextField {...textFieldProps} {...params} inputRef={field.ref}
  name={field.name} value={field.value} error={!!fieldState.error}
  helperText={config?.displayErrorMessage && fieldState.error?.message} />\<close>
\<close>

definition error_message :: "ControllerFieldState \<Rightarrow> jsvalue" where
  "error_message fs =
     (case error fs of
        None \<Rightarrow> Undefined
      | Some e \<Rightarrow> (case message e of None \<Rightarrow> Undefined | Some m \<Rightarrow> Str m))"

definition renderInput ::
  "jsvalue bag option \<Rightarrow> Config option \<Rightarrow> ControllerField \<Rightarrow> ControllerFieldState \<Rightarrow>
   jsvalue bag \<Rightarrow> jsvalue element" where
  "renderInput textFieldProps' config fld fs params =
     Element TextField
       (spread textFieldProps' ++ params ++
        [''inputRef'' \<mapsto> ref fld,
         ''name'' \<mapsto> Str (name fld),
         ''value'' \<mapsto> fieldValue fld,
         ''error'' \<mapsto> Boolean (case error fs of None \<Rightarrow> False | Some e \<Rightarrow> True),
         ''helperText'' \<mapsto> js_and (opt_flag config displayErrorMessage) (error_message fs)])"

text \<open>
  \<^verbatim>\<open>const { muiProps, config, ...others } = props\<close>: the two named members, and the object
  of all the other members.
\<close>

definition props_muiProps :: "MuiAutocompleteProps \<Rightarrow> MuiProps option" where
  "props_muiProps props' =
     (case props' ''muiProps'' of Some (MuiPropsObj m) \<Rightarrow> Some m | _ \<Rightarrow> None)"

definition props_config :: "MuiAutocompleteProps \<Rightarrow> Config option" where
  "props_config props' =
     (case props' ''config'' of Some (ConfigObj c) \<Rightarrow> Some c | _ \<Rightarrow> None)"

definition props_others :: "MuiAutocompleteProps \<Rightarrow> MuiAutocompleteProps" where
  "props_others props' = props' |` (- {''muiProps'', ''config''})"

text \<open>
  \<^verbatim>\<open>const { autocompleteProps, textFieldProps } = muiProps ?? {}\<close>: both are
  \<^verbatim>\<open>undefined\<close> when \<^verbatim>\<open>muiProps\<close> is.
\<close>

definition muiProps_autocompleteProps :: "MuiProps option \<Rightarrow> jsvalue bag option" where
  "muiProps_autocompleteProps muiProps =
     (case muiProps of None \<Rightarrow> None | Some m \<Rightarrow> autocompleteProps m)"

definition muiProps_textFieldProps :: "MuiProps option \<Rightarrow> jsvalue bag option" where
  "muiProps_textFieldProps muiProps =
     (case muiProps of None \<Rightarrow> None | Some m \<Rightarrow> textFieldProps m)"

text \<open>
  The component: destructure the props, call the hook with the remaining members, and
  describe the dropdown. Later props override earlier ones, as in the JSX.
\<close>

definition MuiAutocomplete ::
  "'s useController \<Rightarrow> MuiAutocompleteProps \<Rightarrow> 's \<Rightarrow> propval element \<times> 's" where
  "MuiAutocomplete useController props' s =
     (let muiProps = props_muiProps props';
          config = props_config props';
          others = props_others props';
          autocompleteProps' = muiProps_autocompleteProps muiProps;
          textFieldProps' = muiProps_textFieldProps muiProps;
          (ctl, s') = useController others s;
          fld = field ctl;
          fs = fieldState ctl
      in (Element Autocomplete
            ((map_option Data \<circ> spread autocompleteProps') ++
             [''id'' \<mapsto> Data (opt_get autocompleteProps' ''id''),
              ''options'' \<mapsto> Data (nullish (opt_get autocompleteProps' ''options'') (OptionArr [])),
              ''getOptionLabel'' \<mapsto> LabelFn getOptionLabel,
              ''onChange'' \<mapsto> ChangeFn (handleChange config fld),
              ''onBlur'' \<mapsto> Data (onBlur fld),
              ''renderInput'' \<mapsto> RenderFn (renderInput textFieldProps' config fld fs)]),
          s'))"

section \<open>The example of the documentation\<close>

text \<open>
  The usage example in the doc comment of the component: the field \<^verbatim>\<open>film\<close> with a form
  context, a \<^verbatim>\<open>required\<close> rule, three films as options and a labelled text input. The
  behaviour config is a parameter. \<open>Extern 0\<close> is the form context, \<open>Extern 4\<close> the rules
  object.
\<close>

definition film_options :: "AutocompleteOption list" where
  "film_options =
     [\<lparr>label = ''The Dark Knight''\<rparr>, \<lparr>label = ''The Matrix''\<rparr>,
      \<lparr>label = ''Back to the Future''\<rparr>]"

definition film_muiProps :: MuiProps where
  "film_muiProps =
     \<lparr>autocompleteProps =
        Some [''disablePortal'' \<mapsto> Boolean True, ''options'' \<mapsto> OptionArr film_options],
      textFieldProps = Some [''label'' \<mapsto> Str ''Favorite Film'']\<rparr>"

definition film_props :: "Config \<Rightarrow> MuiAutocompleteProps" where
  "film_props cfg =
     [''name'' \<mapsto> Setting (Str ''film''),
      ''control'' \<mapsto> Setting (Extern 0),
      ''rules'' \<mapsto> Setting (Extern 4),
      ''config'' \<mapsto> ConfigObj cfg,
      ''muiProps'' \<mapsto> MuiPropsObj film_muiProps]"

text \<open>
  A form controller for the example: its state is the list of the settings it was
  registered with; it hands out fixed notifiers (\<open>Extern 1\<close>, \<open>Extern 2\<close>), an input
  reference sink (\<open>Extern 3\<close>), the current value and the given validation error.
\<close>

definition film_field :: "jsvalue \<Rightarrow> ControllerField" where
  "film_field v =
     \<lparr>onChange = Extern 1, onBlur = Extern 2, fieldValue = v, name = ''film'',
      ref = Extern 3\<rparr>"

definition film_controller ::
  "jsvalue \<Rightarrow> FieldError option \<Rightarrow> MuiAutocompleteProps list useController" where
  "film_controller v err others registered =
     (\<lparr>field = film_field v, fieldState = \<lparr>error = err\<rparr>\<rparr>, registered @ [others])"

section \<open>Facts about the rendered element\<close>

lemma rendered_props:
  "props (fst (MuiAutocomplete uc p s)) =
     (map_option Data \<circ> spread (muiProps_autocompleteProps (props_muiProps p))) ++
       [''id'' \<mapsto> Data (opt_get (muiProps_autocompleteProps (props_muiProps p)) ''id''),
        ''options'' \<mapsto> Data (nullish (opt_get (muiProps_autocompleteProps (props_muiProps p)) ''options'') (OptionArr [])),
        ''getOptionLabel'' \<mapsto> LabelFn getOptionLabel,
        ''onChange'' \<mapsto> ChangeFn (handleChange (props_config p) (field (fst (uc (props_others p) s)))),
        ''onBlur'' \<mapsto> Data (onBlur (field (fst (uc (props_others p) s)))),
        ''renderInput'' \<mapsto> RenderFn (renderInput (muiProps_textFieldProps (props_muiProps p)) (props_config p)
            (field (fst (uc (props_others p) s))) (fieldState (fst (uc (props_others p) s))))]"
  by (simp add: MuiAutocomplete_def Let_def split: prod.split)

lemma rendered_component: "component (fst (MuiAutocomplete uc p s)) = Autocomplete"
  by (simp add: MuiAutocomplete_def Let_def split: prod.split)

lemma controller_state: "snd (MuiAutocomplete uc p s) = snd (uc (props_others p) s)"
  by (simp add: MuiAutocomplete_def Let_def split: prod.split)

lemma rendered_onChange:
  "props (fst (MuiAutocomplete uc p s)) ''onChange'' =
     Some (ChangeFn (handleChange (props_config p) (field (fst (uc (props_others p) s)))))"
  by (simp add: rendered_props)

lemma rendered_onBlur:
  "props (fst (MuiAutocomplete uc p s)) ''onBlur'' =
     Some (Data (onBlur (field (fst (uc (props_others p) s)))))"
  by (simp add: rendered_props)

lemma rendered_getOptionLabel:
  "props (fst (MuiAutocomplete uc p s)) ''getOptionLabel'' = Some (LabelFn getOptionLabel)"
  by (simp add: rendered_props)

lemma rendered_options:
  "props (fst (MuiAutocomplete uc p s)) ''options'' =
     Some (Data (nullish (opt_get (muiProps_autocompleteProps (props_muiProps p)) ''options'')
       (OptionArr [])))"
  by (simp add: rendered_props)

lemma rendered_renderInput:
  "props (fst (MuiAutocomplete uc p s)) ''renderInput'' =
     Some (RenderFn (renderInput (muiProps_textFieldProps (props_muiProps p)) (props_config p)
            (field (fst (uc (props_others p) s))) (fieldState (fst (uc (props_others p) s)))))"
  by (simp add: rendered_props)

lemma manageWithLabel_truthy:
  "truthy (opt_flag config manageWithLabel) = (Option.bind config manageWithLabel = Some True)"
  by (auto simp: opt_flag_def split: option.splits)

lemma displayErrorMessage_cases:
  "opt_flag config displayErrorMessage =
     (case Option.bind config displayErrorMessage of None \<Rightarrow> Undefined | Some b \<Rightarrow> Boolean b)"
  by (auto simp: opt_flag_def split: option.splits)

lemma props_others_muiProps [simp]:
  "props_others (p(''muiProps'' \<mapsto> x)) = props_others p"
  by (auto simp: props_others_def restrict_map_def)

lemma props_config_muiProps [simp]:
  "props_config (p(''muiProps'' \<mapsto> x)) = props_config p"
  by (simp add: props_config_def)

lemma props_muiProps_upd [simp]:
  "props_muiProps (p(''muiProps'' \<mapsto> MuiPropsObj m)) = Some m"
  by (simp add: props_muiProps_def)

lemma map_add_agree_outside:
  assumes "\<forall>k. k \<notin> dom n \<longrightarrow> m' k = m k"
  shows "m' ++ n = m ++ n"
proof
  fix k
  show "(m' ++ n) k = (m ++ n) k"
    using assms by (cases "n k") (auto simp: map_add_def)
qed

lemma overridden_keys_ignored:
  assumes "p ''muiProps'' = Some (MuiPropsObj m)" and "autocompleteProps m = Some a"
    and "\<forall>k. k \<notin> {''getOptionLabel'', ''onChange'', ''onBlur'', ''renderInput''} \<longrightarrow> a' k = a k"
  shows "MuiAutocomplete uc (p(''muiProps'' \<mapsto> MuiPropsObj (m\<lparr>autocompleteProps := Some a'\<rparr>))) s
       = MuiAutocomplete uc p s"
proof -
  have mp: "props_muiProps p = Some m"
    using assms(1) by (simp add: props_muiProps_def)
  have id: "a' ''id'' = a ''id''" and opts: "a' ''options'' = a ''options''"
    using assms(3) by simp_all
  have bag: "(map_option Data \<circ> a') ++ n = (map_option Data \<circ> a) ++ n"
    if "{''getOptionLabel'', ''onChange'', ''onBlur'', ''renderInput''} \<subseteq> dom n" for n :: "propval bag"
  proof (rule map_add_agree_outside, intro allI impI)
    fix k assume "k \<notin> dom n"
    with that have "k \<notin> {''getOptionLabel'', ''onChange'', ''onBlur'', ''renderInput''}"
      by blast
    with assms(3) have "a' k = a k" by blast
    then show "(map_option Data \<circ> a') k = (map_option Data \<circ> a) k" by simp
  qed
  have pr: "props (fst (MuiAutocomplete uc
                (p(''muiProps'' \<mapsto> MuiPropsObj (m\<lparr>autocompleteProps := Some a'\<rparr>))) s))
       = props (fst (MuiAutocomplete uc p s))"
    unfolding rendered_props
    apply (simp add: assms(2) mp muiProps_autocompleteProps_def muiProps_textFieldProps_def
        spread_def opt_get_def id opts del: map_add_upd)
    apply (rule bag)
    apply simp
    done
  have el: "fst (MuiAutocomplete uc
                (p(''muiProps'' \<mapsto> MuiPropsObj (m\<lparr>autocompleteProps := Some a'\<rparr>))) s)
       = fst (MuiAutocomplete uc p s)"
    by (rule element.expand) (simp add: rendered_component pr)
  have st: "snd (MuiAutocomplete uc (p(''muiProps'' \<mapsto> MuiPropsObj (m\<lparr>autocompleteProps := Some a'\<rparr>))) s)
       = snd (MuiAutocomplete uc p s)"
    by (simp add: controller_state)
  show ?thesis
    using el st by (rule prod_eqI)
qed

lemma film_controller_handles [simp]:
  "fst (film_controller v err others registered) =
     \<lparr>field = film_field v, fieldState = \<lparr>error = err\<rparr>\<rparr>"
  "snd (film_controller v err others registered) = registered @ [others]"
  by (simp_all add: film_controller_def)

lemma film_props_parts [simp]:
  "props_config (film_props cfg) = Some cfg"
  "props_muiProps (film_props cfg) = Some film_muiProps"
  "film_props cfg ''muiProps'' = Some (MuiPropsObj film_muiProps)"
  by (simp_all add: film_props_def props_config_def props_muiProps_def)

lemma film_field_parts [simp]:
  "onChange (film_field v) = Extern 1"
  "onBlur (film_field v) = Extern 2"
  "fieldValue (film_field v) = v"
  "name (film_field v) = ''film''"
  "ref (film_field v) = Extern 3"
  by (simp_all add: film_field_def)

lemma film_autocompleteProps [simp]:
  "autocompleteProps film_muiProps =
     Some [''disablePortal'' \<mapsto> Boolean True, ''options'' \<mapsto> OptionArr film_options]"
  by (simp add: film_muiProps_def)

lemma value_label_cases:
  "value_label v = (case v of OptionObj opt \<Rightarrow> Str (label opt) | _ \<Rightarrow> Undefined)"
  by (cases v) simp_all

section \<open>The claims\<close>

text \<open>
  C1 (as amended). For every Field Configuration, the dropdown's selection-change handler
  is the one the component installs, and clearing the selection (the dropdown passes
  \<^verbatim>\<open>null\<close>) invokes the field's change notifier with \<^verbatim>\<open>null\<close> when \<^verbatim>\<open>manageWithLabel\<close> is
  unset or false, and with \<^verbatim>\<open>undefined\<close> (the value of \<^verbatim>\<open>value?.label\<close> on \<^verbatim>\<open>null\<close>) when
  \<^verbatim>\<open>manageWithLabel\<close> is true.
\<close>

theorem C1_clear_selection_notifier:
  "\<exists>h. props (fst (MuiAutocomplete uc p s)) ''onChange'' = Some (ChangeFn h) \<and>
     (\<forall>ev. h ev Null =
        Invoke (onChange (field (fst (uc (props_others p) s))))
          (if Option.bind (props_config p) manageWithLabel = Some True then Undefined else Null))"
  by (simp add: rendered_onChange handleChange_def manageWithLabel_truthy)

text \<open>
  With \<^verbatim>\<open>manageWithLabel\<close> true, clearing the selection of the documentation's example
  invokes the change notifier with \<^verbatim>\<open>undefined\<close>, not with \<^verbatim>\<open>null\<close>.
\<close>

theorem C1_clear_with_label_counterexample:
  "props (fst (MuiAutocomplete (film_controller Null None)
       (film_props \<lparr>displayErrorMessage = Some True, manageWithLabel = Some True\<rparr>) []))
     ''onChange''
   = Some (ChangeFn (handleChange
       (Some \<lparr>displayErrorMessage = Some True, manageWithLabel = Some True\<rparr>)
       (film_field Null))) \<and>
   handleChange (Some \<lparr>displayErrorMessage = Some True, manageWithLabel = Some True\<rparr>)
     (film_field Null) (Extern 9) Null
   = Invoke (Extern 1) Undefined \<and>
   Undefined \<noteq> Null"
  by (simp add: rendered_onChange handleChange_def opt_flag_def)

theorem C1_clear_selection_notifier_witness:
  "(\<exists>h. props (fst (MuiAutocomplete (film_controller Null None)
          (film_props \<lparr>displayErrorMessage = Some True, manageWithLabel = None\<rparr>) []))
        ''onChange'' = Some (ChangeFn h) \<and>
        h (Extern 9) Null = Invoke (Extern 1) Null) \<and>
   (\<exists>h. props (fst (MuiAutocomplete (film_controller Null None)
          (film_props \<lparr>displayErrorMessage = Some True, manageWithLabel = Some True\<rparr>) []))
        ''onChange'' = Some (ChangeFn h) \<and>
        h (Extern 9) Null = Invoke (Extern 1) Undefined)"
  using C1_clear_selection_notifier [of "film_controller Null None"
      "film_props \<lparr>displayErrorMessage = Some True, manageWithLabel = None\<rparr>" "[]"]
    C1_clear_selection_notifier [of "film_controller Null None"
      "film_props \<lparr>displayErrorMessage = Some True, manageWithLabel = Some True\<rparr>" "[]"]
  by auto

text \<open>
  C2. The props of the text input are merged in three tiers: the adapter's own bindings
  (\<^verbatim>\<open>inputRef\<close>, \<^verbatim>\<open>name\<close>, \<^verbatim>\<open>value\<close>, \<^verbatim>\<open>error\<close>, \<^verbatim>\<open>helperText\<close>) always win; on every other
  key the dropdown's input parameters win over the caller's \<^verbatim>\<open>textFieldProps\<close>, which are
  the baseline. In particular, with the caller's \<^verbatim>\<open>{label: "Film"}\<close>, the field name
  \<^verbatim>\<open>film\<close> and input parameters that carry no \<^verbatim>\<open>label\<close> (the second tier would override
  it), the rendered input has label \<^verbatim>\<open>Film\<close> and name \<^verbatim>\<open>film\<close>.
\<close>

theorem C2_text_input_precedence:
  "\<exists>r. props (fst (MuiAutocomplete uc p s)) ''renderInput'' = Some (RenderFn r) \<and>
     (\<forall>params.
        props (r params) ''inputRef'' = Some (ref (field (fst (uc (props_others p) s)))) \<and>
        props (r params) ''name'' = Some (Str (name (field (fst (uc (props_others p) s))))) \<and>
        props (r params) ''value'' = Some (fieldValue (field (fst (uc (props_others p) s)))) \<and>
        props (r params) ''error'' =
          Some (Boolean (error (fieldState (fst (uc (props_others p) s))) \<noteq> None)) \<and>
        props (r params) ''helperText'' =
          Some (js_and (opt_flag (props_config p) displayErrorMessage)
                  (error_message (fieldState (fst (uc (props_others p) s))))) \<and>
        (\<forall>k. k \<notin> {''inputRef'', ''name'', ''value'', ''error'', ''helperText''} \<longrightarrow>
           props (r params) k =
             (case params k of
                Some v \<Rightarrow> Some v
              | None \<Rightarrow> spread (muiProps_textFieldProps (props_muiProps p)) k)) \<and>
        (\<forall>t. muiProps_textFieldProps (props_muiProps p) = Some t \<and>
             t ''label'' = Some (Str ''Film'') \<and> params ''label'' = None \<and>
             name (field (fst (uc (props_others p) s))) = ''film'' \<longrightarrow>
           props (r params) ''label'' = Some (Str ''Film'') \<and>
           props (r params) ''name'' = Some (Str ''film'')))"
  by (simp add: rendered_renderInput renderInput_def map_add_def spread_def
      split: option.splits)

theorem C2_text_input_precedence_witness:
  "\<exists>r. props (fst (MuiAutocomplete (film_controller Null None)
          ((film_props \<lparr>displayErrorMessage = None, manageWithLabel = None\<rparr>)
             (''muiProps'' \<mapsto> MuiPropsObj \<lparr>autocompleteProps = None,
                textFieldProps = Some [''label'' \<mapsto> Str ''Film'', ''name'' \<mapsto> Str ''x'']\<rparr>)) []))
        ''renderInput'' = Some (RenderFn r) \<and>
      props (r [''id'' \<mapsto> Str ''film-input'']) ''label'' = Some (Str ''Film'') \<and>
      props (r [''id'' \<mapsto> Str ''film-input'']) ''name'' = Some (Str ''film'') \<and>
      props (r [''id'' \<mapsto> Str ''film-input'']) ''id'' = Some (Str ''film-input'')"
  using C2_text_input_precedence [of "film_controller Null None"
      "(film_props \<lparr>displayErrorMessage = None, manageWithLabel = None\<rparr>)
         (''muiProps'' \<mapsto> MuiPropsObj \<lparr>autocompleteProps = None,
            textFieldProps = Some [''label'' \<mapsto> Str ''Film'', ''name'' \<mapsto> Str ''x'']\<rparr>)" "[]"]
  by (auto simp: muiProps_textFieldProps_def spread_def)

text \<open>
  C3. For every Field Configuration and every selected option, the selection-change
  handler invokes the field's change notifier with the string label of the option when
  \<^verbatim>\<open>manageWithLabel\<close> is true, and with the option object itself when it is unset or
  false.
\<close>

theorem C3_selected_option_notifier:
  "\<exists>h. props (fst (MuiAutocomplete uc p s)) ''onChange'' = Some (ChangeFn h) \<and>
     (\<forall>ev opt. h ev (OptionObj opt) =
        Invoke (onChange (field (fst (uc (props_others p) s))))
          (if Option.bind (props_config p) manageWithLabel = Some True
           then Str (label opt) else OptionObj opt))"
  by (simp add: rendered_onChange handleChange_def manageWithLabel_truthy)

theorem C3_selected_option_notifier_witness:
  "(\<exists>h. props (fst (MuiAutocomplete (film_controller Null None)
          (film_props \<lparr>displayErrorMessage = None, manageWithLabel = Some False\<rparr>) []))
        ''onChange'' = Some (ChangeFn h) \<and>
        h (Extern 9) (OptionObj \<lparr>label = ''The Matrix''\<rparr>)
          = Invoke (Extern 1) (OptionObj \<lparr>label = ''The Matrix''\<rparr>)) \<and>
   (\<exists>h. props (fst (MuiAutocomplete (film_controller Null None)
          (film_props \<lparr>displayErrorMessage = None, manageWithLabel = Some True\<rparr>) []))
        ''onChange'' = Some (ChangeFn h) \<and>
        h (Extern 9) (OptionObj \<lparr>label = ''The Matrix''\<rparr>)
          = Invoke (Extern 1) (Str ''The Matrix''))"
  using C3_selected_option_notifier [of "film_controller Null None"
      "film_props \<lparr>displayErrorMessage = None, manageWithLabel = Some False\<rparr>" "[]"]
    C3_selected_option_notifier [of "film_controller Null None"
      "film_props \<lparr>displayErrorMessage = None, manageWithLabel = Some True\<rparr>" "[]"]
  by auto

text \<open>
  C4. When the field is invalid with message \<open>m\<close>, the helper text of the rendered input
  equals \<open>m\<close> if and only if \<^verbatim>\<open>displayErrorMessage\<close> is true; when it is false or unset the
  helper text is a falsy value, neither the message nor the empty string.
\<close>

theorem C4_helper_text:
  assumes "error (fieldState (fst (uc (props_others p) s))) = Some e"
    and "message e = Some m"
  shows "\<exists>r. props (fst (MuiAutocomplete uc p s)) ''renderInput'' = Some (RenderFn r) \<and>
     (\<forall>params.
        (props (r params) ''helperText'' = Some (Str m)
           \<longleftrightarrow> Option.bind (props_config p) displayErrorMessage = Some True) \<and>
        (Option.bind (props_config p) displayErrorMessage \<noteq> Some True \<longrightarrow>
           (\<exists>v. props (r params) ''helperText'' = Some v \<and> \<not> truthy v \<and> v \<noteq> Str m \<and> v \<noteq> Str [])))"
  using assms
  by (auto simp: rendered_renderInput renderInput_def js_and_def error_message_def
      displayErrorMessage_cases split: option.splits)

theorem C4_helper_text_witness:
  "(\<exists>r. props (fst (MuiAutocomplete (film_controller Null (Some \<lparr>message = Some ''Required''\<rparr>))
          (film_props \<lparr>displayErrorMessage = Some True, manageWithLabel = None\<rparr>) []))
        ''renderInput'' = Some (RenderFn r) \<and>
        props (r Map.empty) ''helperText'' = Some (Str ''Required'')) \<and>
   (\<exists>r. props (fst (MuiAutocomplete (film_controller Null (Some \<lparr>message = Some ''Required''\<rparr>))
          (film_props \<lparr>displayErrorMessage = Some False, manageWithLabel = None\<rparr>) []))
        ''renderInput'' = Some (RenderFn r) \<and>
        props (r Map.empty) ''helperText'' \<noteq> Some (Str ''Required''))"
  using C4_helper_text [of "film_controller Null (Some \<lparr>message = Some ''Required''\<rparr>)"
      "film_props \<lparr>displayErrorMessage = Some True, manageWithLabel = None\<rparr>" "[]"
      "\<lparr>message = Some ''Required''\<rparr>" "''Required''"]
    C4_helper_text [of "film_controller Null (Some \<lparr>message = Some ''Required''\<rparr>)"
      "film_props \<lparr>displayErrorMessage = Some False, manageWithLabel = None\<rparr>" "[]"
      "\<lparr>message = Some ''Required''\<rparr>" "''Required''"]
  by auto

text \<open>
  C5. For every Field Configuration, whatever \<^verbatim>\<open>displayErrorMessage\<close> is, the error flag
  of the rendered text input is true when the Validation State Handle reports an error and
  false when it reports none.
\<close>

theorem C5_error_flag:
  "\<exists>r. props (fst (MuiAutocomplete uc p s)) ''renderInput'' = Some (RenderFn r) \<and>
     (\<forall>params. props (r params) ''error'' =
        Some (Boolean (error (fieldState (fst (uc (props_others p) s))) \<noteq> None)))"
  by (simp add: rendered_renderInput renderInput_def split: option.splits)

theorem C5_error_flag_witness:
  "(\<exists>r. props (fst (MuiAutocomplete (film_controller Null (Some \<lparr>message = Some ''Required''\<rparr>))
          (film_props \<lparr>displayErrorMessage = Some False, manageWithLabel = None\<rparr>) []))
        ''renderInput'' = Some (RenderFn r) \<and>
        props (r Map.empty) ''error'' = Some (Boolean True)) \<and>
   (\<exists>r. props (fst (MuiAutocomplete (film_controller Null None)
          (film_props \<lparr>displayErrorMessage = Some True, manageWithLabel = None\<rparr>) []))
        ''renderInput'' = Some (RenderFn r) \<and>
        props (r Map.empty) ''error'' = Some (Boolean False))"
  using C5_error_flag [of "film_controller Null (Some \<lparr>message = Some ''Required''\<rparr>)"
      "film_props \<lparr>displayErrorMessage = Some False, manageWithLabel = None\<rparr>" "[]"]
    C5_error_flag [of "film_controller Null None"
      "film_props \<lparr>displayErrorMessage = Some True, manageWithLabel = None\<rparr>" "[]"]
  by auto

text \<open>
  C6. The dropdown is never rendered with an absent, \<^verbatim>\<open>undefined\<close> or \<^verbatim>\<open>null\<close> options
  prop: when the dropdown settings are omitted or omit \<^verbatim>\<open>options\<close>, it gets the empty
  option sequence; an options list of the caller is passed through unchanged.
\<close>

theorem C6_options_default:
  "(\<exists>v. props (fst (MuiAutocomplete uc p s)) ''options'' = Some (Data v) \<and>
        v \<noteq> Undefined \<and> v \<noteq> Null) \<and>
   (Option.bind (props_muiProps p) autocompleteProps = None \<or>
    (\<exists>a. Option.bind (props_muiProps p) autocompleteProps = Some a \<and> a ''options'' = None)
      \<longrightarrow> props (fst (MuiAutocomplete uc p s)) ''options'' = Some (Data (OptionArr []))) \<and>
   (\<forall>a xs. Option.bind (props_muiProps p) autocompleteProps = Some a \<and>
        a ''options'' = Some (OptionArr xs)
      \<longrightarrow> props (fst (MuiAutocomplete uc p s)) ''options'' = Some (Data (OptionArr xs)))"
  by (auto simp: rendered_options nullish_def opt_get_def muiProps_autocompleteProps_def
      split: option.splits jsvalue.splits)

theorem C6_options_default_witness:
  "props (fst (MuiAutocomplete (film_controller Null None)
       (film_props \<lparr>displayErrorMessage = None, manageWithLabel = None\<rparr>) [])) ''options''
     = Some (Data (OptionArr film_options)) \<and>
   props (fst (MuiAutocomplete (film_controller Null None)
       [''name'' \<mapsto> Setting (Str ''film'')] [])) ''options''
     = Some (Data (OptionArr [])) \<and>
   props (fst (MuiAutocomplete (film_controller Null None)
       [''name'' \<mapsto> Setting (Str ''film''),
        ''muiProps'' \<mapsto> MuiPropsObj \<lparr>autocompleteProps = Some [''disablePortal'' \<mapsto> Boolean True],
           textFieldProps = None\<rparr>] [])) ''options''
     = Some (Data (OptionArr []))"
  using C6_options_default [of "film_controller Null None"
      "film_props \<lparr>displayErrorMessage = None, manageWithLabel = None\<rparr>" "[]"]
    C6_options_default [of "film_controller Null None" "[''name'' \<mapsto> Setting (Str ''film'')]" "[]"]
    C6_options_default [of "film_controller Null None"
      "[''name'' \<mapsto> Setting (Str ''film''),
        ''muiProps'' \<mapsto> MuiPropsObj \<lparr>autocompleteProps = Some [''disablePortal'' \<mapsto> Boolean True],
           textFieldProps = None\<rparr>]" "[]"]
  by (simp add: props_muiProps_def)

text \<open>
  C7. For every Field Configuration, the display-text extractor of the rendered dropdown
  is the function that maps an option to its label; a \<^verbatim>\<open>getOptionLabel\<close> of the caller in
  the dropdown settings changes nothing in what the component returns.
\<close>

theorem C7_getOptionLabel_forced:
  "(\<exists>f. props (fst (MuiAutocomplete uc p s)) ''getOptionLabel'' = Some (LabelFn f) \<and>
        (\<forall>opt. f opt = label opt)) \<and>
   (\<forall>m a v. p ''muiProps'' = Some (MuiPropsObj m) \<and> autocompleteProps m = Some a \<longrightarrow>
      MuiAutocomplete uc
        (p(''muiProps'' \<mapsto> MuiPropsObj (m\<lparr>autocompleteProps := Some (a(''getOptionLabel'' \<mapsto> v))\<rparr>))) s
      = MuiAutocomplete uc p s)"
proof (intro conjI allI impI)
  show "\<exists>f. props (fst (MuiAutocomplete uc p s)) ''getOptionLabel'' = Some (LabelFn f) \<and>
        (\<forall>opt. f opt = label opt)"
    by (simp add: rendered_getOptionLabel getOptionLabel_def)
next
  fix m a v
  assume "p ''muiProps'' = Some (MuiPropsObj m) \<and> autocompleteProps m = Some a"
  then show "MuiAutocomplete uc
        (p(''muiProps'' \<mapsto> MuiPropsObj (m\<lparr>autocompleteProps := Some (a(''getOptionLabel'' \<mapsto> v))\<rparr>))) s
      = MuiAutocomplete uc p s"
    by (intro overridden_keys_ignored [of p m a]) simp_all
qed

theorem C7_getOptionLabel_forced_witness:
  "(\<exists>f. props (fst (MuiAutocomplete (film_controller Null None)
          ((film_props \<lparr>displayErrorMessage = None, manageWithLabel = None\<rparr>)
             (''muiProps'' \<mapsto> MuiPropsObj (film_muiProps\<lparr>autocompleteProps :=
                Some ([''disablePortal'' \<mapsto> Boolean True, ''options'' \<mapsto> OptionArr film_options]
                        (''getOptionLabel'' \<mapsto> Extern 7))\<rparr>))) []))
        ''getOptionLabel'' = Some (LabelFn f) \<and>
        f \<lparr>label = ''The Matrix''\<rparr> = ''The Matrix'') \<and>
   MuiAutocomplete (film_controller Null None)
     ((film_props \<lparr>displayErrorMessage = None, manageWithLabel = None\<rparr>)
        (''muiProps'' \<mapsto> MuiPropsObj (film_muiProps\<lparr>autocompleteProps :=
           Some ([''disablePortal'' \<mapsto> Boolean True, ''options'' \<mapsto> OptionArr film_options]
                   (''getOptionLabel'' \<mapsto> Extern 7))\<rparr>))) []
   = MuiAutocomplete (film_controller Null None)
       (film_props \<lparr>displayErrorMessage = None, manageWithLabel = None\<rparr>) []"
  using C7_getOptionLabel_forced [of "film_controller Null None"
      "(film_props \<lparr>displayErrorMessage = None, manageWithLabel = None\<rparr>)
         (''muiProps'' \<mapsto> MuiPropsObj (film_muiProps\<lparr>autocompleteProps :=
            Some ([''disablePortal'' \<mapsto> Boolean True, ''options'' \<mapsto> OptionArr film_options]
                    (''getOptionLabel'' \<mapsto> Extern 7))\<rparr>))" "[]"]
    C7_getOptionLabel_forced [of "film_controller Null None"
      "film_props \<lparr>displayErrorMessage = None, manageWithLabel = None\<rparr>" "[]"]
  by auto

text \<open>
  C8. The form controller is called with the props object without its \<^verbatim>\<open>config\<close> and
  \<^verbatim>\<open>muiProps\<close> members, whatever the controller does with it: the keys of the argument
  are the other keys of the props, each with its value unchanged.
\<close>

theorem C8_controller_settings_passed:
  "snd (MuiAutocomplete uc p s) = snd (uc (p |` (- {''muiProps'', ''config''})) s) \<and>
   dom (p |` (- {''muiProps'', ''config''})) = dom p - {''muiProps'', ''config''} \<and>
   (\<forall>k. k \<noteq> ''muiProps'' \<and> k \<noteq> ''config'' \<longrightarrow> (p |` (- {''muiProps'', ''config''})) k = p k)"
  by (auto simp: controller_state props_others_def restrict_map_def split: if_splits)

theorem C8_controller_settings_passed_witness:
  "snd (MuiAutocomplete (film_controller Null None)
       (film_props \<lparr>displayErrorMessage = None, manageWithLabel = None\<rparr>) [])
     = [[''name'' \<mapsto> Setting (Str ''film''), ''control'' \<mapsto> Setting (Extern 0),
         ''rules'' \<mapsto> Setting (Extern 4)]]"
proof -
  have "film_props cfg |` (- {''muiProps'', ''config''})
      = [''name'' \<mapsto> Setting (Str ''film''), ''control'' \<mapsto> Setting (Extern 0),
         ''rules'' \<mapsto> Setting (Extern 4)]" for cfg
    by (rule ext) (simp add: film_props_def restrict_map_def)
  then show ?thesis
    using C8_controller_settings_passed [of "film_controller Null None"
      "film_props \<lparr>displayErrorMessage = None, manageWithLabel = None\<rparr>" "[]"]
    by simp
qed

text \<open>
  C9. For every Field Configuration, the selection-change handler of the rendered dropdown
  is the component's translation into the field's change notifier: on every event and
  value it calls that notifier, with the label of the value (\<^verbatim>\<open>undefined\<close> when the value
  is no option) when \<^verbatim>\<open>manageWithLabel\<close> is true and with the value itself otherwise. Its
  blur handler is the field's blur notifier. An \<^verbatim>\<open>onChange\<close> or \<^verbatim>\<open>onBlur\<close> of the caller
  in the dropdown settings changes nothing in what the component returns.
\<close>

theorem C9_caller_handlers_discarded:
  "(\<exists>h. props (fst (MuiAutocomplete uc p s)) ''onChange'' = Some (ChangeFn h) \<and>
      (\<forall>ev v. h ev v =
         Invoke (onChange (field (fst (uc (props_others p) s))))
           (if Option.bind (props_config p) manageWithLabel = Some True
            then (case v of OptionObj opt \<Rightarrow> Str (label opt) | _ \<Rightarrow> Undefined)
            else v))) \<and>
   props (fst (MuiAutocomplete uc p s)) ''onBlur'' =
     Some (Data (onBlur (field (fst (uc (props_others p) s))))) \<and>
   (\<forall>m a v w. p ''muiProps'' = Some (MuiPropsObj m) \<and> autocompleteProps m = Some a \<longrightarrow>
      MuiAutocomplete uc
        (p(''muiProps'' \<mapsto>
           MuiPropsObj (m\<lparr>autocompleteProps := Some (a(''onChange'' \<mapsto> v, ''onBlur'' \<mapsto> w))\<rparr>))) s
      = MuiAutocomplete uc p s)"
proof (intro conjI allI impI)
  show "\<exists>h. props (fst (MuiAutocomplete uc p s)) ''onChange'' = Some (ChangeFn h) \<and>
      (\<forall>ev v. h ev v =
         Invoke (onChange (field (fst (uc (props_others p) s))))
           (if Option.bind (props_config p) manageWithLabel = Some True
            then (case v of OptionObj opt \<Rightarrow> Str (label opt) | _ \<Rightarrow> Undefined)
            else v))"
    by (simp add: rendered_onChange handleChange_def manageWithLabel_truthy value_label_cases)
next
  show "props (fst (MuiAutocomplete uc p s)) ''onBlur'' =
     Some (Data (onBlur (field (fst (uc (props_others p) s)))))"
    by (rule rendered_onBlur)
next
  fix m a v w
  assume "p ''muiProps'' = Some (MuiPropsObj m) \<and> autocompleteProps m = Some a"
  then show "MuiAutocomplete uc
        (p(''muiProps'' \<mapsto>
           MuiPropsObj (m\<lparr>autocompleteProps := Some (a(''onChange'' \<mapsto> v, ''onBlur'' \<mapsto> w))\<rparr>))) s
      = MuiAutocomplete uc p s"
    by (intro overridden_keys_ignored [of p m a]) simp_all
qed

theorem C9_caller_handlers_discarded_witness:
  "(\<exists>h. props (fst (MuiAutocomplete (film_controller Null None)
       ((film_props \<lparr>displayErrorMessage = None, manageWithLabel = None\<rparr>)
          (''muiProps'' \<mapsto> MuiPropsObj (film_muiProps\<lparr>autocompleteProps :=
             Some ([''disablePortal'' \<mapsto> Boolean True, ''options'' \<mapsto> OptionArr film_options]
                     (''onChange'' \<mapsto> Extern 7, ''onBlur'' \<mapsto> Extern 8))\<rparr>))) [])) ''onChange''
       = Some (ChangeFn h) \<and>
       h (Extern 9) (OptionObj \<lparr>label = ''The Matrix''\<rparr>)
         = Invoke (Extern 1) (OptionObj \<lparr>label = ''The Matrix''\<rparr>)) \<and>
   props (fst (MuiAutocomplete (film_controller Null None)
     ((film_props \<lparr>displayErrorMessage = None, manageWithLabel = None\<rparr>)
        (''muiProps'' \<mapsto> MuiPropsObj (film_muiProps\<lparr>autocompleteProps :=
           Some ([''disablePortal'' \<mapsto> Boolean True, ''options'' \<mapsto> OptionArr film_options]
                   (''onChange'' \<mapsto> Extern 7, ''onBlur'' \<mapsto> Extern 8))\<rparr>))) [])) ''onBlur''
   = Some (Data (Extern 2)) \<and>
   MuiAutocomplete (film_controller Null None)
     ((film_props \<lparr>displayErrorMessage = None, manageWithLabel = None\<rparr>)
        (''muiProps'' \<mapsto> MuiPropsObj (film_muiProps\<lparr>autocompleteProps :=
           Some ([''disablePortal'' \<mapsto> Boolean True, ''options'' \<mapsto> OptionArr film_options]
                   (''onChange'' \<mapsto> Extern 7, ''onBlur'' \<mapsto> Extern 8))\<rparr>))) []
   = MuiAutocomplete (film_controller Null None)
       (film_props \<lparr>displayErrorMessage = None, manageWithLabel = None\<rparr>) []"
  using C9_caller_handlers_discarded [of "film_controller Null None"
      "(film_props \<lparr>displayErrorMessage = None, manageWithLabel = None\<rparr>)
        (''muiProps'' \<mapsto> MuiPropsObj (film_muiProps\<lparr>autocompleteProps :=
           Some ([''disablePortal'' \<mapsto> Boolean True, ''options'' \<mapsto> OptionArr film_options]
                   (''onChange'' \<mapsto> Extern 7, ''onBlur'' \<mapsto> Extern 8))\<rparr>))" "[]"]
    C9_caller_handlers_discarded [of "film_controller Null None"
      "film_props \<lparr>displayErrorMessage = None, manageWithLabel = None\<rparr>" "[]"]
  by auto

end
